theory Spec2Isabelle
  imports Complex_Main "HOL-Library.Sublist" "HOL-Library.Word"
begin

section \<open>ChatGPT2docX: the values the program works on\<close>

text \<open>
  The program reads \<^verbatim>\<open>conversations.json\<close> with \<^verbatim>\<open>json.load\<close> and walks the result with
  dynamic type tests. The model therefore works on Python's JSON values as they are:
  \<^verbatim>\<open>None\<close>, \<^verbatim>\<open>bool\<close>, \<^verbatim>\<open>int\<close>, \<^verbatim>\<open>float\<close>, \<^verbatim>\<open>str\<close>, \<^verbatim>\<open>list\<close>
  and \<^verbatim>\<open>dict\<close>. A dict is an association list in insertion order, which is the order
  \<^verbatim>\<open>.items()\<close> iterates in. A \<^verbatim>\<open>str\<close> is a \<open>string\<close>; one \<open>char\<close> stands for one code
  point below 256. A float is a real number (the JSON extensions NaN and Infinity, both
  truthy, are not represented).
\<close>

datatype pyval =
    PNone
  | PBool bool
  | PInt int
  | PFloat real
  | PStr string
  | PList "pyval list"
  | PDict "(string \<times> pyval) list"

text \<open>Every exception of the program is a value; \<open>Inl\<close> of it is the raise.\<close>

datatype error =
    KeyError string
  | TypeError
  | AttributeError
  | IndexError
  | ValueError string
  | UnicodeDecodeError
  | JSONDecodeError
  | RecursionError
  | OSError string
  | BadZipFile

text \<open>Python's truth value of an object, as \<^verbatim>\<open>if not message\<close> tests it.\<close>

fun truthy :: "pyval \<Rightarrow> bool" where
  "truthy PNone = False"
| "truthy (PBool b) = b"
| "truthy (PInt i) = (i \<noteq> 0)"
| "truthy (PFloat r) = (r \<noteq> 0)"
| "truthy (PStr s) = (s \<noteq> [])"
| "truthy (PList xs) = (xs \<noteq> [])"
| "truthy (PDict kvs) = (kvs \<noteq> [])"

text \<open>\<^verbatim>\<open>obj[key]\<close> with a string key: only a dict has string keys.\<close>

fun subscript :: "pyval \<Rightarrow> string \<Rightarrow> error + pyval" where
  "subscript (PDict kvs) k =
     (case map_of kvs k of None \<Rightarrow> Inl (KeyError k) | Some v \<Rightarrow> Inr v)"
| "subscript _ k = Inl TypeError"

text \<open>\<^verbatim>\<open>obj.get(key, default)\<close>: only a dict has the method.\<close>

fun get_method :: "pyval \<Rightarrow> string \<Rightarrow> pyval \<Rightarrow> error + pyval" where
  "get_method (PDict kvs) k d =
     (case map_of kvs k of None \<Rightarrow> Inr d | Some v \<Rightarrow> Inr v)"
| "get_method _ k d = Inl AttributeError"

text \<open>\<^verbatim>\<open>obj.items()\<close>.\<close>

fun items :: "pyval \<Rightarrow> error + (string \<times> pyval) list" where
  "items (PDict kvs) = Inr kvs"
| "items _ = Inl AttributeError"

text \<open>
  \<^verbatim>\<open>for x in obj\<close>: a list gives its elements, a string its characters (each a string of
  length one), a dict its keys; nothing else is iterable.
\<close>

fun iterate :: "pyval \<Rightarrow> error + pyval list" where
  "iterate (PList xs) = Inr xs"
| "iterate (PStr s) = Inr (map (\<lambda>c. PStr [c]) s)"
| "iterate (PDict kvs) = Inr (map (\<lambda>kv. PStr (fst kv)) kvs)"
| "iterate _ = Inl TypeError"

subsection \<open>String methods\<close>

text \<open>
  \<^verbatim>\<open>str.isspace\<close> on one character, for the code points below 256: TAB, LF, VT, FF, CR,
  FS, GS, RS, US, SPACE, NEL and NBSP.
\<close>

definition whitespace_chars :: "char list" where
  "whitespace_chars =
     [CHR 0x09, CHR 0x0A, CHR 0x0B, CHR 0x0C, CHR 0x0D, CHR 0x1C, CHR 0x1D, CHR 0x1E,
      CHR 0x1F, CHR 0x20, CHR 0x85, CHR 0xA0]"

definition isspace :: "char \<Rightarrow> bool" where
  "isspace c = (c \<in> set whitespace_chars)"

text \<open>\<^verbatim>\<open>s.strip()\<close>: whitespace removed at both ends.\<close>

definition strip :: "string \<Rightarrow> string" where
  "strip s = rev (dropWhile isspace (rev (dropWhile isspace s)))"

text \<open>
  \<^verbatim>\<open>s.split(sep)\<close> for a separator of one character: a scan from the left that keeps the
  segment read so far. The result is never empty.
\<close>

fun split_from :: "char \<Rightarrow> string \<Rightarrow> string \<Rightarrow> string list" where
  "split_from sep segment [] = [segment]"
| "split_from sep segment (c # cs) =
     (if c = sep then segment # split_from sep [] cs
      else split_from sep (segment @ [c]) cs)"

definition split_on :: "char \<Rightarrow> string \<Rightarrow> string list" where
  "split_on sep s = split_from sep [] s"

text \<open>\<^verbatim>\<open>s.replace(' ', '_')\<close>.\<close>

definition replace_spaces :: "string \<Rightarrow> string" where
  "replace_spaces s = map (\<lambda>c. if c = CHR '' '' then CHR ''_'' else c) s"

text \<open>\<^verbatim>\<open>os.path.join(a, b)\<close> and \<^verbatim>\<open>os.path.basename(p)\<close> of posixpath.\<close>

definition path_join :: "string \<Rightarrow> string \<Rightarrow> string" where
  "path_join a b =
     (if b \<noteq> [] \<and> hd b = CHR ''/'' then b
      else if a = [] \<or> last a = CHR ''/'' then a @ b
      else a @ ''/'' @ b)"

definition basename :: "string \<Rightarrow> string" where
  "basename p = last (split_on (CHR ''/'') p)"

section \<open>Documents\<close>

text \<open>
  A python-docx document is the list of its body blocks. A paragraph made by
  \<^verbatim>\<open>add_styled_paragraph\<close> has one run of text with the attributes the function sets;
  \<^verbatim>\<open>doc.add_paragraph()\<close> without text gives an empty paragraph; \<^verbatim>\<open>doc.add_picture\<close>
  gives a paragraph holding the picture. The assignments to \<^verbatim>\<open>paragraph.space_before\<close>
  and \<^verbatim>\<open>paragraph.space_after\<close> set attributes of the proxy object only and leave no
  trace in the document, so the record has no field for them.
\<close>

datatype wd_align = LEFT | CENTER | RIGHT | JUSTIFY

record styled_paragraph =
  ptext :: string
  pstyle :: "string option"
  pbold :: bool
  punderline :: bool
  pcolor :: "(nat \<times> nat \<times> nat) option"
  palign :: "wd_align option"

datatype block =
    Para styled_paragraph
  | EmptyPara
  | Picture string nat "wd_align option"

type_synonym document = "block list"

text \<open>What the program prints, in order.\<close>

datatype diagnostic =
    ImagesMapped "string list"
  | ImageMissing string

text \<open>The truth value of an alignment constant is that of its number; \<^verbatim>\<open>LEFT\<close> is 0.\<close>

fun align_truthy :: "wd_align option \<Rightarrow> bool" where
  "align_truthy None = False"
| "align_truthy (Some LEFT) = False"
| "align_truthy (Some _) = True"

fun style_truthy :: "string option \<Rightarrow> bool" where
  "style_truthy None = False"
| "style_truthy (Some s) = (s \<noteq> [])"

text \<open>
  The text of a run goes into the XML tree of the document, and lxml refuses a string
  with a control character: a code point below 32 other than TAB, LF and CR (which
  python-docx turns into tab and break elements before the text reaches lxml).
\<close>

definition xml_rejected_chars :: "char list" where
  "xml_rejected_chars =
     [CHR 0x00, CHR 0x01, CHR 0x02, CHR 0x03, CHR 0x04, CHR 0x05, CHR 0x06, CHR 0x07,
      CHR 0x08, CHR 0x0B, CHR 0x0C, CHR 0x0E, CHR 0x0F, CHR 0x10, CHR 0x11, CHR 0x12,
      CHR 0x13, CHR 0x14, CHR 0x15, CHR 0x16, CHR 0x17, CHR 0x18, CHR 0x19, CHR 0x1A,
      CHR 0x1B, CHR 0x1C, CHR 0x1D, CHR 0x1E, CHR 0x1F]"

definition xml_compatible :: "string \<Rightarrow> bool" where
  "xml_compatible text = (\<forall>c\<in>set text. c \<notin> set xml_rejected_chars)"

definition xml_error_text :: string where
  "xml_error_text =
     ''All strings must be XML compatible: Unicode or ASCII, no NULL bytes or control characters''"

text \<open>
  The two exceptions of \<^verbatim>\<open>add_styled_paragraph\<close> on a string: python-docx adds a run to the
  new paragraph only when the text is not empty, so \<^verbatim>\<open>paragraph.runs[0]\<close> raises IndexError
  on an empty text; and the ValueError of lxml on a text it refuses. Each has the
  exception it is and the text \<^verbatim>\<open>str(e)\<close> gives for it.
\<close>

datatype paragraph_error = NoRun | NotXmlCompatible

fun raised :: "paragraph_error \<Rightarrow> error" where
  "raised NoRun = IndexError"
| "raised NotXmlCompatible = ValueError xml_error_text"

fun exception_text :: "paragraph_error \<Rightarrow> string" where
  "exception_text NoRun = ''list index out of range''"
| "exception_text NotXmlCompatible = xml_error_text"

text \<open>
  python-docx writes the text of a run segment by segment: TAB, CR and LF end a segment,
  which goes to lxml, and become a tab or a break. What is in the run when lxml refuses
  a segment are the segments and separators before it.
\<close>

fun written_before_error :: "string \<Rightarrow> string \<Rightarrow> string \<Rightarrow> string" where
  "written_before_error written segment [] = written"
| "written_before_error written segment (c # cs) =
     (if c \<in> set [CHR 0x09, CHR 0x0D, CHR 0x0A] then
        (if xml_compatible segment then written_before_error (written @ segment @ [c]) [] cs
         else written)
      else written_before_error written (segment @ [c]) cs)"

text \<open>
  \<^verbatim>\<open>add_styled_paragraph(doc, text, style, bold, underline, color, align)\<close> on a string. A
  colour is a non-empty tuple and always true.
\<close>

definition add_styled_paragraph ::
  "document \<Rightarrow> string \<Rightarrow> string option \<Rightarrow> bool \<Rightarrow> bool \<Rightarrow> (nat \<times> nat \<times> nat) option
     \<Rightarrow> wd_align option \<Rightarrow> paragraph_error + document" where
  "add_styled_paragraph doc text style bold underline color align =
     (if text = [] then Inl NoRun
      else if \<not> xml_compatible text then Inl NotXmlCompatible
      else Inr (doc @ [Para \<lparr>ptext = text,
                             pstyle = (if style_truthy style then style else None),
                             pbold = bold,
                             punderline = underline,
                             pcolor = color,
                             palign = (if align_truthy align then align else None)\<rparr>]))"

section \<open>The world outside the program\<close>

text \<open>
  The file system after the input archive has been extracted, the codecs, the JSON
  parser and Pillow are outside the repository. They are the fields of a record, one per
  library call of the source:
  \<^item> \<open>os_exists\<close>, \<open>os_isfile\<close>, \<open>os_listdir\<close>: \<^verbatim>\<open>os.path.exists\<close>, \<^verbatim>\<open>os.path.isfile\<close>,
    \<^verbatim>\<open>os.listdir\<close> (which raises on a path that is not a directory);
  \<^item> \<open>file_open\<close>: \<^verbatim>\<open>open(path, 'r', encoding=...)\<close>, the bytes of the file or the OSError;
  \<^item> \<open>decode_text\<close>: reading the bytes under an encoding, the text or the exception
    (UnicodeDecodeError on bytes that are not of the encoding);
  \<^item> \<open>json_loads\<close>: the parser, the value or the exception (JSONDecodeError on a text that
    is not JSON; also RecursionError on a nesting deeper than the interpreter allows,
    and a plain ValueError on an integer with too many digits);
  \<^item> \<open>image_png\<close>: \<^verbatim>\<open>Image.open\<close> followed by \<^verbatim>\<open>img.save(stream, format='PNG')\<close>, the PNG
    stream or the text of the exception raised;
  \<^item> \<open>doc_save\<close>: whether \<^verbatim>\<open>doc.save(path)\<close> can write the path, the OSError otherwise;
  \<^item> \<open>zip_create\<close>: whether the result archive can be created at a path.
\<close>

record world =
  os_exists :: "string \<Rightarrow> bool"
  os_isfile :: "string \<Rightarrow> bool"
  os_listdir :: "string \<Rightarrow> error + string list"
  file_open :: "string \<Rightarrow> error + 8 word list"
  decode_text :: "string \<Rightarrow> 8 word list \<Rightarrow> error + string"
  json_loads :: "string \<Rightarrow> error + pyval"
  image_png :: "string \<Rightarrow> string + string"
  doc_save :: "string \<Rightarrow> error option"
  zip_create :: "string \<Rightarrow> error option"

section \<open>The functions of ChatGPT2docX.py\<close>

subsection \<open>load_json_with_fallback\<close>

definition encodings :: "string list" where
  "encodings = [''utf-8'', ''latin-1'', ''iso-8859-1'']"

text \<open>
  The body of the \<^verbatim>\<open>try\<close>: open the file under the encoding, read and parse it.
\<close>

definition read_json :: "world \<Rightarrow> string \<Rightarrow> string \<Rightarrow> error + pyval" where
  "read_json w file_path encoding =
     (case file_open w file_path of
        Inl e \<Rightarrow> Inl e
      | Inr bytes \<Rightarrow>
          (case decode_text w encoding bytes of
             Inl e \<Rightarrow> Inl e
           | Inr text \<Rightarrow> json_loads w text))"

text \<open>\<^verbatim>\<open>except (UnicodeDecodeError, json.JSONDecodeError)\<close>: the two classes the loop catches.\<close>

definition caught :: "error \<Rightarrow> bool" where
  "caught e = (e = UnicodeDecodeError \<or> e = JSONDecodeError)"

definition no_encoding_message :: string where
  "no_encoding_message = ''Impossible de lire le fichier JSON avec les encodages disponibles.''"

text \<open>
  The loop over the encodings. A caught exception leads to the next encoding and the end
  of the list to the ValueError of the last line; every other exception leaves the
  function at once.
\<close>

fun try_encodings :: "world \<Rightarrow> string \<Rightarrow> string list \<Rightarrow> error + pyval" where
  "try_encodings w file_path [] = Inl (ValueError no_encoding_message)"
| "try_encodings w file_path (encoding # rest) =
     (case read_json w file_path encoding of
        Inr data \<Rightarrow> Inr data
      | Inl e \<Rightarrow> (if caught e then try_encodings w file_path rest else Inl e))"

definition load_json_with_fallback :: "world \<Rightarrow> string \<Rightarrow> error + pyval" where
  "load_json_with_fallback w file_path = try_encodings w file_path encodings"

subsection \<open>map_images_to_identifiers, find_image_for_asset, get_image_paths_from_zip\<close>

text \<open>\<^verbatim>\<open>d[k] = v\<close> on a dict in insertion order: a present key keeps its place.\<close>

fun dict_set :: "(string \<times> 'v) list \<Rightarrow> string \<Rightarrow> 'v \<Rightarrow> (string \<times> 'v) list" where
  "dict_set [] k v = [(k, v)]"
| "dict_set ((k', v') # kvs) k v =
     (if k' = k then (k, v) # kvs else (k', v') # dict_set kvs k v)"

fun scan_files ::
  "world \<Rightarrow> string \<Rightarrow> (string \<times> string) list \<Rightarrow> string list \<Rightarrow> (string \<times> string) list" where
  "scan_files w images_dir image_paths [] = image_paths"
| "scan_files w images_dir image_paths (file # files) =
     (let full_path = path_join images_dir file in
      if os_isfile w full_path
      then scan_files w images_dir (dict_set image_paths file full_path) files
      else scan_files w images_dir image_paths files)"

definition map_images_to_identifiers ::
  "world \<Rightarrow> string \<Rightarrow> error + (string \<times> string) list \<times> diagnostic list" where
  "map_images_to_identifiers w images_dir =
     (if os_exists w images_dir then
        (case os_listdir w images_dir of
           Inl e \<Rightarrow> Inl e
         | Inr files \<Rightarrow>
             (let image_paths = scan_files w images_dir [] files
              in Inr (image_paths, [ImagesMapped (map fst image_paths)])))
      else Inr ([], [ImagesMapped []]))"

fun find_image_for_asset :: "string \<Rightarrow> (string \<times> string) list \<Rightarrow> string option" where
  "find_image_for_asset asset_pointer [] = None"
| "find_image_for_asset asset_pointer ((file_name, path) # image_paths) =
     (if prefix asset_pointer file_name then Some path
      else find_image_for_asset asset_pointer image_paths)"

text \<open>
  \<^verbatim>\<open>extractall\<close> changes the file system: the model takes it as a function from the
  archive's name and the target directory to the world after the extraction, or
  the error of an archive that cannot be read.
\<close>

definition get_image_paths_from_zip ::
  "(string \<Rightarrow> string \<Rightarrow> error + world) \<Rightarrow> string \<Rightarrow> string
     \<Rightarrow> error + world \<times> (string \<times> string) list \<times> diagnostic list" where
  "get_image_paths_from_zip extractall zip_file extract_path =
     (case extractall zip_file extract_path of
        Inl e \<Rightarrow> Inl e
      | Inr w \<Rightarrow>
          (let image_dir = path_join extract_path ''Dalle-generations'' in
           case map_images_to_identifiers w image_dir of
             Inl e \<Rightarrow> Inl e
           | Inr (image_paths, diags) \<Rightarrow> Inr (w, image_paths, diags)))"

subsection \<open>create_conversation_doc\<close>

text \<open>
  In this section \<^verbatim>\<open>add_styled_paragraph\<close> is used through \<open>paragraph_or_raise\<close> where its
  exception is not caught.
\<close>

text \<open>
  The paragraph that \<^verbatim>\<open>doc.add_paragraph(text)\<close> leaves in the document when
  \<^verbatim>\<open>add_styled_paragraph\<close> raises: python-docx appends the paragraph before it writes the
  text, and the style, emphasis, colour and alignment are set after it only.
\<close>

definition unfinished_paragraph :: "string \<Rightarrow> block" where
  "unfinished_paragraph text =
     (case written_before_error [] [] text of
        [] \<Rightarrow> EmptyPara
      | c # cs \<Rightarrow> Para \<lparr>ptext = c # cs, pstyle = None, pbold = False,
                          punderline = False, pcolor = None, palign = None\<rparr>)"

definition paragraph_or_raise :: "paragraph_error + document \<Rightarrow> error + document" where
  "paragraph_or_raise r = (case r of Inl f \<Rightarrow> Inl (raised f) | Inr doc \<Rightarrow> Inr doc)"

text \<open>
  The handler \<^verbatim>\<open>except Exception as e\<close>: a paragraph with default styling that quotes the
  text of the exception. It stands outside the \<^verbatim>\<open>try\<close>, so an exception of its own
  paragraph leaves the function.
\<close>

definition image_error_paragraph :: "document \<Rightarrow> string \<Rightarrow> error + document" where
  "image_error_paragraph doc msg =
     paragraph_or_raise
       (add_styled_paragraph doc
          (''(Erreur lors de l'' @ [CHR 0x27] @ ''insertion de l'' @ [CHR 0x27] @ ''image : ''
             @ msg @ '')'')
          None False False None None)"

text \<open>
  The \<^verbatim>\<open>try\<close> block. When Pillow fails nothing has been added yet. Otherwise an empty
  paragraph, the picture (4 inches wide, centred) and the caption follow:
  \<^verbatim>\<open>doc.add_picture\<close> is taken to succeed on the PNG stream that Pillow wrote. The handler
  also covers the caption: when its paragraph raises (a file name with a control
  character), the paragraph is in the document already, with the text that was written
  before the exception and no attribute set, and the handler adds its own.
\<close>

definition insert_image :: "world \<Rightarrow> document \<Rightarrow> string \<Rightarrow> error + document" where
  "insert_image w doc image_file_path =
     (case image_png w image_file_path of
        Inl msg \<Rightarrow> image_error_paragraph doc msg
      | Inr img_stream \<Rightarrow>
          (let doc2 = doc @ [EmptyPara, Picture img_stream 4 (Some CENTER)];
               caption = ''(Image : '' @ basename image_file_path @ '')'' in
           case add_styled_paragraph doc2 caption
                  (Some ''Normal'') False False None (Some CENTER) of
             Inr doc3 \<Rightarrow> Inr doc3
           | Inl f \<Rightarrow>
               image_error_paragraph (doc2 @ [unfinished_paragraph caption])
                 (exception_text f)))"

text \<open>
  The body of \<^verbatim>\<open>for part in parts\<close>, on the document and the diagnostics printed so far.
  \<^verbatim>\<open>part.get('asset_pointer')\<close> is \<^verbatim>\<open>None\<close> for a missing key, and only a string has
  \<^verbatim>\<open>split\<close>.
\<close>

fun process_part ::
  "world \<Rightarrow> (string \<times> string) list \<Rightarrow> pyval \<Rightarrow> document \<times> diagnostic list \<Rightarrow> pyval
     \<Rightarrow> error + document \<times> diagnostic list" where
  "process_part w images_path author (doc, diags) (PStr part) =
     (if strip part \<noteq> [] then
        (if author = PStr ''user'' then
           (case paragraph_or_raise
                   (add_styled_paragraph doc (''Utilisateur : '' @ strip part)
                      None True True (Some (0, 102, 204)) None) of
              Inl e \<Rightarrow> Inl e
            | Inr doc' \<Rightarrow> Inr (doc', diags))
         else
           (case paragraph_or_raise
                   (add_styled_paragraph doc (''Assistant : '' @ strip part)
                      None False False None None) of
              Inl e \<Rightarrow> Inl e
            | Inr doc' \<Rightarrow> Inr (doc', diags)))
      else Inr (doc, diags))"
| "process_part w images_path author (doc, diags) (PDict part) =
     (if map_of part ''content_type'' = Some (PStr ''image_asset_pointer'') then
        (case map_of part ''asset_pointer'' of
           Some (PStr pointer) \<Rightarrow>
             (let asset_pointer = last (split_on (CHR ''/'') pointer) in
              case find_image_for_asset asset_pointer images_path of
                None \<Rightarrow> Inr (doc, diags @ [ImageMissing asset_pointer])
              | Some image_file_path \<Rightarrow>
                  (if image_file_path \<noteq> [] \<and> os_exists w image_file_path then
                     (case insert_image w doc image_file_path of
                        Inl e \<Rightarrow> Inl e
                      | Inr doc' \<Rightarrow> Inr (doc', diags))
                   else Inr (doc, diags @ [ImageMissing asset_pointer])))
         | _ \<Rightarrow> Inl AttributeError)
      else Inr (doc, diags))"
| "process_part w images_path author (doc, diags) _ = Inr (doc, diags)"

fun process_parts ::
  "world \<Rightarrow> (string \<times> string) list \<Rightarrow> pyval \<Rightarrow> document \<times> diagnostic list \<Rightarrow> pyval list
     \<Rightarrow> error + document \<times> diagnostic list" where
  "process_parts w images_path author st [] = Inr st"
| "process_parts w images_path author st (part # parts) =
     (case process_part w images_path author st part of
        Inl e \<Rightarrow> Inl e
      | Inr st' \<Rightarrow> process_parts w images_path author st' parts)"

text \<open>The body of the loop over \<^verbatim>\<open>conversation.get('mapping', {}).items()\<close>.\<close>

definition process_node ::
  "world \<Rightarrow> (string \<times> string) list \<Rightarrow> document \<times> diagnostic list \<Rightarrow> pyval
     \<Rightarrow> error + document \<times> diagnostic list" where
  "process_node w images_path st node_data =
     (case get_method node_data ''message'' PNone of
        Inl e \<Rightarrow> Inl e
      | Inr message \<Rightarrow>
          (if \<not> truthy message then Inr st
           else
             (case subscript message ''author'' of
                Inl e \<Rightarrow> Inl e
              | Inr author_obj \<Rightarrow>
                  (case subscript author_obj ''role'' of
                     Inl e \<Rightarrow> Inl e
                   | Inr author \<Rightarrow>
                       (case subscript message ''content'' of
                          Inl e \<Rightarrow> Inl e
                        | Inr content \<Rightarrow>
                            (case get_method content ''parts'' (PList []) of
                               Inl e \<Rightarrow> Inl e
                             | Inr parts_obj \<Rightarrow>
                                 (case iterate parts_obj of
                                    Inl e \<Rightarrow> Inl e
                                  | Inr parts \<Rightarrow>
                                      process_parts w images_path author st parts)))))))"

fun process_nodes ::
  "world \<Rightarrow> (string \<times> string) list \<Rightarrow> document \<times> diagnostic list \<Rightarrow> pyval list
     \<Rightarrow> error + document \<times> diagnostic list" where
  "process_nodes w images_path st [] = Inr st"
| "process_nodes w images_path st (node_data # nodes) =
     (case process_node w images_path st node_data of
        Inl e \<Rightarrow> Inl e
      | Inr st' \<Rightarrow> process_nodes w images_path st' nodes)"

text \<open>
  The title is \<^verbatim>\<open>conversation['title']\<close> as it is, and python-docx takes a list or a dict
  for the text of a run as well: it iterates the value (\<^verbatim>\<open>for char in text\<close>). An element
  that is the string TAB, or a substring of CR LF (the empty string is one), ends the
  segment read so far, which goes to lxml; every other string is added to the segment;
  an element that is not a string raises TypeError at the membership test. The last
  segment goes to lxml at the end.
\<close>

fun run_elements :: "string \<Rightarrow> pyval list \<Rightarrow> error option" where
  "run_elements segment [] =
     (if xml_compatible segment then None else Some (ValueError xml_error_text))"
| "run_elements segment (PStr s # elements) =
     (if s \<in> set [[CHR 0x09], [], [CHR 0x0D], [CHR 0x0A], [CHR 0x0D, CHR 0x0A]] then
        (if xml_compatible segment then run_elements [] elements
         else Some (ValueError xml_error_text))
      else run_elements (segment @ s) elements)"
| "run_elements segment (_ # elements) = Some TypeError"

fun element_text :: "pyval \<Rightarrow> string" where
  "element_text (PStr s) = s"
| "element_text _ = []"

text \<open>
  The title paragraph: \<^verbatim>\<open>add_styled_paragraph\<close> with the style Title, bold and centred, on
  any value. A false value (\<^verbatim>\<open>None\<close>, 0, an empty string or container) gives a paragraph
  without run and the IndexError; a number or \<^verbatim>\<open>True\<close> is not iterable; a list gives
  its elements and a dict its keys.
\<close>

definition title_run :: "pyval list \<Rightarrow> error + document" where
  "title_run elements =
     (case run_elements [] elements of
        Some e \<Rightarrow> Inl e
      | None \<Rightarrow>
          Inr [Para \<lparr>ptext = concat (map element_text elements), pstyle = Some ''Title'',
                     pbold = True, punderline = False, pcolor = None,
                     palign = Some CENTER\<rparr>])"

fun title_paragraph :: "pyval \<Rightarrow> error + document" where
  "title_paragraph (PStr title) =
     paragraph_or_raise
       (add_styled_paragraph [] title (Some ''Title'') True False None (Some CENTER))"
| "title_paragraph (PList elements) =
     (if elements = [] then Inl IndexError else title_run elements)"
| "title_paragraph (PDict kvs) =
     (if kvs = [] then Inl IndexError else title_run (map (\<lambda>kv. PStr (fst kv)) kvs))"
| "title_paragraph v = (if truthy v then Inl TypeError else Inl IndexError)"

text \<open>\<^verbatim>\<open>conversation['title'].replace(' ', '_')\<close>: only a string has the method.\<close>

fun title_file_name :: "pyval \<Rightarrow> error + string" where
  "title_file_name (PStr title) = Inr (replace_spaces title)"
| "title_file_name _ = Inl AttributeError"

definition create_conversation_doc ::
  "world \<Rightarrow> pyval \<Rightarrow> (string \<times> string) list \<Rightarrow> string
     \<Rightarrow> error + string \<times> document \<times> diagnostic list" where
  "create_conversation_doc w conversation images_path output_dir =
     (case subscript conversation ''title'' of
        Inl e \<Rightarrow> Inl e
      | Inr title \<Rightarrow>
     (case title_paragraph title of
        Inl e \<Rightarrow> Inl e
      | Inr doc1 \<Rightarrow>
     (case get_method conversation ''mapping'' (PDict []) of
        Inl e \<Rightarrow> Inl e
      | Inr mapping \<Rightarrow>
     (case items mapping of
        Inl e \<Rightarrow> Inl e
      | Inr nodes \<Rightarrow>
     (case process_nodes w images_path (doc1 @ [EmptyPara], []) (map snd nodes) of
        Inl e \<Rightarrow> Inl e
      | Inr (doc, diags) \<Rightarrow>
     (case title_file_name title of
        Inl e \<Rightarrow> Inl e
      | Inr file_name \<Rightarrow>
          (let output_file_path = path_join output_dir (file_name @ ''.docx'') in
           case doc_save w output_file_path of
             Some e \<Rightarrow> Inl e
           | None \<Rightarrow> Inr (output_file_path, doc, diags))))))))"

subsection \<open>generate_conversations_zip\<close>

text \<open>
  The loop over the conversations keeps the list \<^verbatim>\<open>docx_files\<close>, the documents saved so far
  by path (a later save to the same path replaces the earlier file) and the diagnostics.
  There is no handler around \<^verbatim>\<open>create_conversation_doc\<close>. The files read by the program
  (the log and the images) are those of the world after the extraction; the documents it
  saves are kept apart from them. A run that ends in an exception returns the exception
  only, without what was printed before.
\<close>

fun render_all ::
  "world \<Rightarrow> (string \<times> string) list \<Rightarrow> string
     \<Rightarrow> string list \<times> (string \<times> document) list \<times> diagnostic list \<Rightarrow> pyval list
     \<Rightarrow> error + string list \<times> (string \<times> document) list \<times> diagnostic list" where
  "render_all w image_paths docx_temp_dir st [] = Inr st"
| "render_all w image_paths docx_temp_dir (docx_files, saved, diags) (conversation # rest) =
     (case create_conversation_doc w conversation image_paths docx_temp_dir of
        Inl e \<Rightarrow> Inl e
      | Inr (output_file, doc, diags') \<Rightarrow>
          render_all w image_paths docx_temp_dir
            (docx_files @ [output_file], dict_set saved output_file doc, diags @ diags') rest)"

text \<open>
  \<^verbatim>\<open>zipf.write(docx_file, os.path.basename(docx_file))\<close> for every element of
  \<^verbatim>\<open>docx_files\<close>: the entry holds what is at the path when the archive is written.
\<close>

fun zip_write_all ::
  "(string \<times> document) list \<Rightarrow> string list \<Rightarrow> error + (string \<times> document) list" where
  "zip_write_all saved [] = Inr []"
| "zip_write_all saved (docx_file # docx_files) =
     (case map_of saved docx_file of
        None \<Rightarrow> Inl (OSError docx_file)
      | Some doc \<Rightarrow>
          (case zip_write_all saved docx_files of
             Inl e \<Rightarrow> Inl e
           | Inr entries \<Rightarrow> Inr ((basename docx_file, doc) # entries)))"

record run_result =
  zip_output_path :: string
  zip_entries :: "(string \<times> document) list"
  printed :: "diagnostic list"

text \<open>
  The two results of \<^verbatim>\<open>tempfile.mkdtemp()\<close> are the parameters \<open>extract_path\<close> and
  \<open>docx_temp_dir\<close>; \<open>zip_name\<close> is \<^verbatim>\<open>zip_file.name\<close>.
\<close>

definition generate_conversations_zip ::
  "(string \<Rightarrow> string \<Rightarrow> error + world) \<Rightarrow> string \<Rightarrow> string \<Rightarrow> string \<Rightarrow> error + run_result" where
  "generate_conversations_zip extractall zip_name extract_path docx_temp_dir =
     (case get_image_paths_from_zip extractall zip_name extract_path of
        Inl e \<Rightarrow> Inl e
      | Inr (w, image_paths, diags0) \<Rightarrow>
     (case load_json_with_fallback w (path_join extract_path ''conversations.json'') of
        Inl e \<Rightarrow> Inl e
      | Inr conversations_data \<Rightarrow>
     (case iterate conversations_data of
        Inl e \<Rightarrow> Inl e
      | Inr conversations \<Rightarrow>
     (case render_all w image_paths docx_temp_dir ([], [], diags0) conversations of
        Inl e \<Rightarrow> Inl e
      | Inr (docx_files, saved, diags) \<Rightarrow>
          (let out = path_join docx_temp_dir ''conversations_output.zip'' in
           case zip_create w out of
             Some e \<Rightarrow> Inl e
           | None \<Rightarrow>
               (case zip_write_all saved docx_files of
                  Inl e \<Rightarrow> Inl e
                | Inr entries \<Rightarrow>
                    Inr \<lparr>zip_output_path = out, zip_entries = entries,
                         printed = diags\<rparr>))))))"

section \<open>Concrete inputs\<close>

text \<open>
  A message node as the export writes it: an author with a role, and a content with
  parts.
\<close>

definition message_node :: "string \<Rightarrow> pyval list \<Rightarrow> pyval" where
  "message_node role parts =
     PDict [(''message'',
             PDict [(''author'', PDict [(''role'', PStr role)]),
                    (''content'', PDict [(''parts'', PList parts)])])]"

definition image_part :: "string \<Rightarrow> pyval" where
  "image_part pointer =
     PDict [(''content_type'', PStr ''image_asset_pointer''),
            (''asset_pointer'', PStr pointer)]"

text \<open>The conversation "Demo": a user part "Hello" and an assistant part "World".\<close>

definition demo_conversation :: pyval where
  "demo_conversation =
     PDict [(''title'', PStr ''Demo''),
            (''mapping'',
             PDict [(''root'', PDict [(''message'', PNone)]),
                    (''n1'', message_node ''user'' [PStr ''Hello'']),
                    (''n2'', message_node ''assistant'' [PStr ''World''])])]"

text \<open>A conversation whose only message has no author.\<close>

definition broken_conversation :: pyval where
  "broken_conversation =
     PDict [(''title'', PStr ''Broken''),
            (''mapping'',
             PDict [(''n1'',
                     PDict [(''message'',
                             PDict [(''content'', PDict [(''parts'', PList [PStr ''x''])])])])])]"

text \<open>A conversation that refers to the asset "xyz".\<close>

definition picture_conversation :: pyval where
  "picture_conversation =
     PDict [(''title'', PStr ''My pictures''),
            (''mapping'',
             PDict [(''n1'', message_node ''user'' [PStr ''Draw a cat'']),
                    (''n2'', message_node ''tool''
                               [image_part ''file-service://xyz'', PStr '' Done. ''])])]"

text \<open>
  The file system after the extraction of an archive without image folder whose log
  parses to \<open>data\<close>, and the extraction that leads to it.
\<close>

definition plain_world :: "pyval \<Rightarrow> world" where
  "plain_world data =
     \<lparr>os_exists = (\<lambda>p. p = ''/tmp/in/conversations.json''),
      os_isfile = (\<lambda>p. p = ''/tmp/in/conversations.json''),
      os_listdir = (\<lambda>p. Inl (OSError p)),
      file_open = (\<lambda>p. if p = ''/tmp/in/conversations.json'' then Inr [] else Inl (OSError p)),
      decode_text = (\<lambda>encoding bytes. Inr []),
      json_loads = (\<lambda>text. Inr data),
      image_png = (\<lambda>p. Inl ''cannot identify image file''),
      doc_save = (\<lambda>p. None),
      zip_create = (\<lambda>p. None)\<rparr>"

definition plain_extractall :: "pyval \<Rightarrow> string \<Rightarrow> string \<Rightarrow> error + world" where
  "plain_extractall data zip_file extract_path = Inr (plain_world data)"

text \<open>
  A file system with an image folder: two regular files, of which Pillow can read the
  first only, and a subdirectory.
\<close>

definition image_world :: world where
  "image_world =
     \<lparr>os_exists = (\<lambda>p. p \<in> set [''/tmp/in/Dalle-generations'',
                                  ''/tmp/in/Dalle-generations/abc123.png'',
                                  ''/tmp/in/Dalle-generations/broken.png'',
                                  ''/tmp/in/Dalle-generations/sub'']),
      os_isfile = (\<lambda>p. p \<in> set [''/tmp/in/Dalle-generations/abc123.png'',
                                  ''/tmp/in/Dalle-generations/broken.png'']),
      os_listdir = (\<lambda>p. if p = ''/tmp/in/Dalle-generations''
                         then Inr [''abc123.png'', ''sub'', ''broken.png'']
                         else Inl (OSError p)),
      file_open = (\<lambda>p. Inl (OSError p)),
      decode_text = (\<lambda>encoding bytes. Inl UnicodeDecodeError),
      json_loads = (\<lambda>text. Inl JSONDecodeError),
      image_png = (\<lambda>p. if p = ''/tmp/in/Dalle-generations/abc123.png''
                        then Inr ''PNG'' else Inl ''cannot identify image file''),
      doc_save = (\<lambda>p. None),
      zip_create = (\<lambda>p. None)\<rparr>"

definition image_extractall :: "string \<Rightarrow> string \<Rightarrow> error + world" where
  "image_extractall zip_file extract_path = Inr image_world"

text \<open>
  A log in Latin-1: the five bytes of \<^verbatim>\<open>["e"]\<close> with an e acute (E9), which are not
  UTF-8. The codecs and the parser are given on this input only.
\<close>

definition latin1_world :: world where
  "latin1_world =
     \<lparr>os_exists = (\<lambda>p. p = ''/tmp/in/conversations.json''),
      os_isfile = (\<lambda>p. p = ''/tmp/in/conversations.json''),
      os_listdir = (\<lambda>p. Inl (OSError p)),
      file_open = (\<lambda>p. if p = ''/tmp/in/conversations.json''
                        then Inr [0x5B, 0x22, 0xE9, 0x22, 0x5D] else Inl (OSError p)),
      decode_text = (\<lambda>encoding bytes.
                       if encoding = ''utf-8'' then Inl UnicodeDecodeError
                       else Inr [CHR 0x5B, CHR 0x22, CHR 0xE9, CHR 0x22, CHR 0x5D]),
      json_loads = (\<lambda>text. if text = [CHR 0x5B, CHR 0x22, CHR 0xE9, CHR 0x22, CHR 0x5D]
                           then Inr (PList [PStr [CHR 0xE9]]) else Inl JSONDecodeError),
      image_png = (\<lambda>p. Inl ''cannot identify image file''),
      doc_save = (\<lambda>p. None),
      zip_create = (\<lambda>p. None)\<rparr>"

text \<open>A log that is no JSON under any encoding: the one byte of an opening brace.\<close>

definition garbage_world :: world where
  "garbage_world =
     \<lparr>os_exists = (\<lambda>p. p = ''/tmp/in/conversations.json''),
      os_isfile = (\<lambda>p. p = ''/tmp/in/conversations.json''),
      os_listdir = (\<lambda>p. Inl (OSError p)),
      file_open = (\<lambda>p. if p = ''/tmp/in/conversations.json''
                        then Inr [0x7B] else Inl (OSError p)),
      decode_text = (\<lambda>encoding bytes. Inr [CHR 0x7B]),
      json_loads = (\<lambda>text. Inl JSONDecodeError),
      image_png = (\<lambda>p. Inl ''cannot identify image file''),
      doc_save = (\<lambda>p. None),
      zip_create = (\<lambda>p. None)\<rparr>"

text \<open>The document the program builds for the conversation "Demo".\<close>

definition demo_document :: document where
  "demo_document =
     [Para \<lparr>ptext = ''Demo'', pstyle = Some ''Title'', pbold = True,
             punderline = False, pcolor = None, palign = Some CENTER\<rparr>,
      EmptyPara,
      Para \<lparr>ptext = ''Utilisateur : Hello'', pstyle = None, pbold = True,
             punderline = True, pcolor = Some (0, 102, 204), palign = None\<rparr>,
      Para \<lparr>ptext = ''Assistant : World'', pstyle = None, pbold = False,
             punderline = False, pcolor = None, palign = None\<rparr>]"


text \<open>
  A log nested deeper than the interpreter's recursion limit: a hundred thousand opening
  brackets. Every encoding decodes it, and the parser raises RecursionError.
\<close>

definition deep_world :: world where
  "deep_world =
     \<lparr>os_exists = (\<lambda>p. p = ''/tmp/in/conversations.json''),
      os_isfile = (\<lambda>p. p = ''/tmp/in/conversations.json''),
      os_listdir = (\<lambda>p. Inl (OSError p)),
      file_open = (\<lambda>p. if p = ''/tmp/in/conversations.json''
                        then Inr (replicate 100000 0x5B) else Inl (OSError p)),
      decode_text = (\<lambda>encoding bytes. Inr (replicate (length bytes) (CHR 0x5B))),
      json_loads = (\<lambda>text. Inl RecursionError),
      image_png = (\<lambda>p. Inl ''cannot identify image file''),
      doc_save = (\<lambda>p. None),
      zip_create = (\<lambda>p. None)\<rparr>"











section \<open>Auxiliary facts\<close>

lemma split_from_not_Nil: "split_from sep segment s \<noteq> []"
  by (induction s arbitrary: segment) auto

lemma split_on_not_Nil: "split_on sep s \<noteq> []"
  by (simp add: split_on_def split_from_not_Nil)

lemma strip_Nil_iff: "strip s = [] \<longleftrightarrow> (\<forall>c\<in>set s. isspace c)"
proof
  assume "strip s = []"
  then have "dropWhile isspace s = [] \<or> (\<forall>c\<in>set (rev (dropWhile isspace s)). isspace c)"
    by (simp add: strip_def dropWhile_eq_Nil_conv)
  then have "dropWhile isspace s = []"
    by (metis dropWhile_eq_Nil_conv hd_dropWhile list.set_sel(1) set_rev)
  then show "\<forall>c\<in>set s. isspace c"
    by (simp add: dropWhile_eq_Nil_conv)
next
  assume "\<forall>c\<in>set s. isspace c"
  then show "strip s = []"
    by (auto simp: strip_def dest: set_dropWhileD)
qed

lemma process_parts_append:
  "process_parts w ip a st (xs @ ys) =
     (case process_parts w ip a st xs of
        Inl e \<Rightarrow> Inl e
      | Inr st' \<Rightarrow> process_parts w ip a st' ys)"
  by (induction xs arbitrary: st) (auto split: sum.splits)

lemma process_nodes_append:
  "process_nodes w ip st (xs @ ys) =
     (case process_nodes w ip st xs of
        Inl e \<Rightarrow> Inl e
      | Inr st' \<Rightarrow> process_nodes w ip st' ys)"
  by (induction xs arbitrary: st) (auto split: sum.splits)

lemma dict_set_fresh: "k \<notin> fst ` set kvs \<Longrightarrow> dict_set kvs k v = kvs @ [(k, v)]"
  by (induction kvs) auto


lemma scan_files_distinct:
  "distinct files \<Longrightarrow> set files \<inter> fst ` set acc = {} \<Longrightarrow>
   scan_files w dir acc files =
     acc @ map (\<lambda>f. (f, path_join dir f)) (filter (\<lambda>f. os_isfile w (path_join dir f)) files)"
proof (induction files arbitrary: acc)
  case Nil
  then show ?case by simp
next
  case (Cons f files)
  from Cons.prems have fresh: "f \<notin> fst ` set acc" by auto
  from Cons.prems have d: "distinct files" and nf: "f \<notin> set files"
    and disj: "set files \<inter> fst ` set acc = {}" by auto
  show ?case
  proof (cases "os_isfile w (path_join dir f)")
    case True
    have "set files \<inter> fst ` set (acc @ [(f, path_join dir f)]) = {}"
      using disj nf by auto
    with Cons.IH [OF d, of "acc @ [(f, path_join dir f)]"] True fresh
    show ?thesis by (simp add: dict_set_fresh Let_def)
  next
    case False
    with Cons.IH [OF d disj] show ?thesis by (simp add: Let_def)
  qed
qed

lemma process_part_skip_text:
  "strip s = [] \<Longrightarrow> process_part w ip author st (PStr s) = Inr st"
  by (cases st) simp

lemma process_part_skip_other:
  assumes "\<forall>s. part \<noteq> PStr s"
    and "\<forall>kvs. part = PDict kvs \<longrightarrow>
           map_of kvs ''content_type'' \<noteq> Some (PStr ''image_asset_pointer'')"
  shows "process_part w ip author st part = Inr st"
  using assms by (cases st; cases part) auto

lemma process_node_skip:
  assumes "map_of node ''message'' = None
           \<or> (\<exists>m. map_of node ''message'' = Some m \<and> \<not> truthy m)"
  shows "process_node w ip st (PDict node) = Inr st"
  using assms by (auto simp: process_node_def)

lemma process_nodes_skip_node:
  assumes "map_of node ''message'' = None
           \<or> (\<exists>m. map_of node ''message'' = Some m \<and> \<not> truthy m)"
  shows "process_nodes w ip st0 (nodes1 @ PDict node # nodes2)
          = process_nodes w ip st0 (nodes1 @ nodes2)"
  by (simp add: process_nodes_append process_node_skip [OF assms] split: sum.splits)







lemma strip_examples:
  "strip ''Hello'' = ''Hello''"
  "strip ''World'' = ''World''"
  "strip '' Done. '' = ''Done.''"
  "strip ''  '' = []"
  "strip ''ok'' = ''ok''"
  by (simp_all add: strip_def isspace_def whitespace_chars_def)

lemma try_encodings_first_success:
  assumes "\<forall>e\<in>set tried. \<exists>x. read_json w p e = Inl x \<and> caught x"
    and "read_json w p encoding = Inr data"
  shows "try_encodings w p (tried @ encoding # rest) = Inr data"
  using assms by (induction tried) auto

lemma try_encodings_all_caught:
  assumes "\<forall>e\<in>set encs. \<exists>x. read_json w p e = Inl x \<and> caught x"
  shows "try_encodings w p encs = Inl (ValueError no_encoding_message)"
  using assms by (induction encs) auto

lemma try_encodings_first_uncaught:
  assumes "\<forall>e\<in>set tried. \<exists>x. read_json w p e = Inl x \<and> caught x"
    and "read_json w p encoding = Inl x" and "\<not> caught x"
  shows "try_encodings w p (tried @ encoding # rest) = Inl x"
  using assms by (induction tried) auto

lemma try_encodings_Inr:
  assumes "try_encodings w p encs = Inr data"
  shows "\<exists>encoding\<in>set encs. read_json w p encoding = Inr data"
  using assms by (induction encs) (auto split: sum.splits if_splits)

lemma add_styled_paragraph_Inr:
  assumes "text \<noteq> []" and "xml_compatible text"
  shows "add_styled_paragraph doc text style bold underline color align =
    Inr (doc @ [Para \<lparr>ptext = text,
                       pstyle = (if style_truthy style then style else None),
                       pbold = bold, punderline = underline, pcolor = color,
                       palign = (if align_truthy align then align else None)\<rparr>])"
  using assms by (simp add: add_styled_paragraph_def)














section \<open>The tolerant decoder\<close>

text \<open>
  Claim C2, as the spec states it, gives two outcomes for any input: a parse under one of
  the encodings, or the error that no encoding could parse the log. The handler of
  \<^verbatim>\<open>load_json_with_fallback\<close> names two classes only. On a log nested deeper than the
  interpreter allows, every encoding fails at the parsing step with RecursionError; the
  first one already leaves the function, and the result is neither a parse nor the
  error of the last line.
\<close>

theorem fallback_escapes_counterexample:
  "read_json deep_world ''/tmp/in/conversations.json'' ''utf-8'' = Inl RecursionError
   \<and> read_json deep_world ''/tmp/in/conversations.json'' ''latin-1'' = Inl RecursionError
   \<and> read_json deep_world ''/tmp/in/conversations.json'' ''iso-8859-1'' = Inl RecursionError
   \<and> load_json_with_fallback deep_world ''/tmp/in/conversations.json'' = Inl RecursionError
   \<and> load_json_with_fallback deep_world ''/tmp/in/conversations.json''
       \<noteq> Inl (ValueError no_encoding_message)"
  by (simp add: load_json_with_fallback_def encodings_def read_json_def deep_world_def
      caught_def)

text \<open>
  Claim C2, amended. \<^verbatim>\<open>load_json_with_fallback\<close> tries UTF-8, Latin-1 and ISO-8859-1 in this
  order, where an attempt opens the file, decodes it and parses it. It returns the parse
  of the first encoding whose attempt succeeds, the attempts before it having raised
  UnicodeDecodeError or JSONDecodeError, and tries no further encoding. When every
  attempt raises one of these two, it raises the ValueError that no encoding could read
  the log. An attempt that raises anything else (the parser's RecursionError or plain
  ValueError, an error of \<^verbatim>\<open>open\<close>) ends the function with that exception, and no further
  encoding is tried. A value that is returned is the parse of the log under one of the
  three encodings.
\<close>

theorem load_json_with_fallback_outcomes:
  "encodings = [''utf-8'', ''latin-1'', ''iso-8859-1'']
   \<and> (encodings = tried @ encoding # rest \<and>
       (\<forall>e\<in>set tried. \<exists>x. read_json w file_path e = Inl x
                          \<and> (x = UnicodeDecodeError \<or> x = JSONDecodeError)) \<and>
       read_json w file_path encoding = Inr data
      \<longrightarrow> load_json_with_fallback w file_path = Inr data)
   \<and> ((\<forall>e\<in>set encodings. \<exists>x. read_json w file_path e = Inl x
                          \<and> (x = UnicodeDecodeError \<or> x = JSONDecodeError))
      \<longrightarrow> load_json_with_fallback w file_path = Inl (ValueError no_encoding_message))
   \<and> (encodings = tried @ encoding # rest \<and>
       (\<forall>e\<in>set tried. \<exists>x. read_json w file_path e = Inl x
                          \<and> (x = UnicodeDecodeError \<or> x = JSONDecodeError)) \<and>
       read_json w file_path encoding = Inl other \<and>
       other \<noteq> UnicodeDecodeError \<and> other \<noteq> JSONDecodeError
      \<longrightarrow> load_json_with_fallback w file_path = Inl other)
   \<and> (load_json_with_fallback w file_path = Inr parsed
      \<longrightarrow> (\<exists>e\<in>set encodings. read_json w file_path e = Inr parsed))"
proof (intro conjI impI)
  show "encodings = [''utf-8'', ''latin-1'', ''iso-8859-1'']"
    by (simp add: encodings_def)
next
  assume "encodings = tried @ encoding # rest \<and>
       (\<forall>e\<in>set tried. \<exists>x. read_json w file_path e = Inl x
                          \<and> (x = UnicodeDecodeError \<or> x = JSONDecodeError)) \<and>
       read_json w file_path encoding = Inr data"
  then have e: "encodings = tried @ encoding # rest"
    and t: "\<forall>e\<in>set tried. \<exists>x. read_json w file_path e = Inl x \<and> caught x"
    and r: "read_json w file_path encoding = Inr data"
    by (auto simp: caught_def)
  show "load_json_with_fallback w file_path = Inr data"
    unfolding load_json_with_fallback_def e
    by (rule try_encodings_first_success [OF t r])
next
  assume "\<forall>e\<in>set encodings. \<exists>x. read_json w file_path e = Inl x
                          \<and> (x = UnicodeDecodeError \<or> x = JSONDecodeError)"
  then have "\<forall>e\<in>set encodings. \<exists>x. read_json w file_path e = Inl x \<and> caught x"
    by (auto simp: caught_def)
  then show "load_json_with_fallback w file_path = Inl (ValueError no_encoding_message)"
    unfolding load_json_with_fallback_def
    by (rule try_encodings_all_caught)
next
  assume "encodings = tried @ encoding # rest \<and>
       (\<forall>e\<in>set tried. \<exists>x. read_json w file_path e = Inl x
                          \<and> (x = UnicodeDecodeError \<or> x = JSONDecodeError)) \<and>
       read_json w file_path encoding = Inl other \<and>
       other \<noteq> UnicodeDecodeError \<and> other \<noteq> JSONDecodeError"
  then have e: "encodings = tried @ encoding # rest"
    and t: "\<forall>e\<in>set tried. \<exists>x. read_json w file_path e = Inl x \<and> caught x"
    and r: "read_json w file_path encoding = Inl other"
    and n: "\<not> caught other"
    by (auto simp: caught_def)
  show "load_json_with_fallback w file_path = Inl other"
    unfolding load_json_with_fallback_def e
    by (rule try_encodings_first_uncaught [OF t r n])
next
  assume "load_json_with_fallback w file_path = Inr parsed"
  then show "\<exists>e\<in>set encodings. read_json w file_path e = Inr parsed"
    by (simp add: load_json_with_fallback_def try_encodings_Inr)
qed

theorem load_json_with_fallback_witness:
  "load_json_with_fallback latin1_world ''/tmp/in/conversations.json''
     = Inr (PList [PStr [CHR 0xE9]])
   \<and> load_json_with_fallback garbage_world ''/tmp/in/conversations.json''
     = Inl (ValueError no_encoding_message)
   \<and> load_json_with_fallback deep_world ''/tmp/in/conversations.json'' = Inl RecursionError"
proof -
  let ?p = "''/tmp/in/conversations.json''"
  have e: "encodings = [''utf-8''] @ ''latin-1'' # [''iso-8859-1'']"
    "encodings = [] @ ''utf-8'' # [''latin-1'', ''iso-8859-1'']"
    by (simp_all add: encodings_def)
  have h1: "encodings = [''utf-8''] @ ''latin-1'' # [''iso-8859-1''] \<and>
       (\<forall>e\<in>set [''utf-8'']. \<exists>x. read_json latin1_world ?p e = Inl x
                          \<and> (x = UnicodeDecodeError \<or> x = JSONDecodeError)) \<and>
       read_json latin1_world ?p ''latin-1'' = Inr (PList [PStr [CHR 0xE9]])"
    by (simp add: e(1) read_json_def latin1_world_def)
  have h2: "\<forall>e\<in>set encodings. \<exists>x. read_json garbage_world ?p e = Inl x
                          \<and> (x = UnicodeDecodeError \<or> x = JSONDecodeError)"
    by (simp add: encodings_def read_json_def garbage_world_def)
  have h3: "encodings = [] @ ''utf-8'' # [''latin-1'', ''iso-8859-1''] \<and>
       (\<forall>e\<in>set []. \<exists>x. read_json deep_world ?p e = Inl x
                          \<and> (x = UnicodeDecodeError \<or> x = JSONDecodeError)) \<and>
       read_json deep_world ?p ''utf-8'' = Inl RecursionError \<and>
       RecursionError \<noteq> UnicodeDecodeError \<and> RecursionError \<noteq> JSONDecodeError"
    by (simp add: e(2) read_json_def deep_world_def)
  from load_json_with_fallback_outcomes
    [where w = latin1_world and file_path = ?p and tried = "[''utf-8'']"
       and encoding = "''latin-1''" and rest = "[''iso-8859-1'']"
       and data = "PList [PStr [CHR 0xE9]]"] h1
  have a: "load_json_with_fallback latin1_world ?p = Inr (PList [PStr [CHR 0xE9]])"
    by blast
  from load_json_with_fallback_outcomes [where w = garbage_world and file_path = ?p] h2
  have b: "load_json_with_fallback garbage_world ?p = Inl (ValueError no_encoding_message)"
    by blast
  from load_json_with_fallback_outcomes
    [where w = deep_world and file_path = ?p and tried = "[]"
       and encoding = "''utf-8''" and rest = "[''latin-1'', ''iso-8859-1'']"
       and other = RecursionError] h3
  have c: "load_json_with_fallback deep_world ?p = Inl RecursionError"
    by blast
  from a b c show ?thesis by simp
qed

section \<open>The image index\<close>

text \<open>
  Claim C3. \<^verbatim>\<open>find_image_for_asset\<close> returns the path of the first entry, in the order of
  the index, whose file name starts with the identifier; an index with the entry
  "abc123.png" resolves "abc123" to the path of that entry; and when no file name
  starts with the identifier the result is \<open>None\<close>, a value and not an exception.
\<close>

theorem find_image_for_asset_first_prefix:
  "(image_paths = before @ (file_name, path) # rest \<and> prefix asset file_name \<and>
      (\<forall>e\<in>set before. \<not> prefix asset (fst e))
      \<longrightarrow> find_image_for_asset asset image_paths = Some path)
   \<and> ((\<forall>e\<in>set image_paths. \<not> prefix asset (fst e))
      \<longrightarrow> find_image_for_asset asset image_paths = None)
   \<and> find_image_for_asset ''abc123'' [(''abc123.png'', p1)] = Some p1"
proof -
  have first: "find_image_for_asset asset (before @ (file_name, path) # rest) = Some path"
    if "prefix asset file_name" "\<forall>e\<in>set before. \<not> prefix asset (fst e)"
    using that by (induction before) auto
  have none: "find_image_for_asset asset image_paths = None"
    if "\<forall>e\<in>set image_paths. \<not> prefix asset (fst e)"
    using that by (induction image_paths) auto
  have ex: "find_image_for_asset ''abc123'' [(''abc123.png'', p1)] = Some p1"
    by simp
  from first none ex show ?thesis by blast
qed

theorem find_image_for_asset_witness:
  "find_image_for_asset ''abc123''
     [(''zzz.png'', ''/i/zzz.png''), (''abc123.png'', ''/i/abc123.png''),
      (''abc123.jpg'', ''/i/abc123.jpg'')] = Some ''/i/abc123.png''
   \<and> find_image_for_asset ''nope''
     [(''zzz.png'', ''/i/zzz.png''), (''abc123.png'', ''/i/abc123.png'')] = None"
proof -
  have a: "find_image_for_asset ''abc123''
     [(''zzz.png'', ''/i/zzz.png''), (''abc123.png'', ''/i/abc123.png''),
      (''abc123.jpg'', ''/i/abc123.jpg'')] = Some ''/i/abc123.png''"
    using find_image_for_asset_first_prefix
      [of "[(''zzz.png'', ''/i/zzz.png''), (''abc123.png'', ''/i/abc123.png''),
            (''abc123.jpg'', ''/i/abc123.jpg'')]"
          "[(''zzz.png'', ''/i/zzz.png'')]" "''abc123.png''" "''/i/abc123.png''"
          "[(''abc123.jpg'', ''/i/abc123.jpg'')]" "''abc123''"]
    by simp
  have b: "find_image_for_asset ''nope''
     [(''zzz.png'', ''/i/zzz.png''), (''abc123.png'', ''/i/abc123.png'')] = None"
    using find_image_for_asset_first_prefix
      [of "[(''zzz.png'', ''/i/zzz.png''), (''abc123.png'', ''/i/abc123.png'')]"
          _ _ _ _ "''nope''"]
    by simp
  from a b show ?thesis by simp
qed

text \<open>
  Claim C8. The index is built from the one folder \<^verbatim>\<open>Dalle-generations\<close> of the extracted
  archive: its entries are the names \<^verbatim>\<open>os.listdir\<close> gives for that folder which are regular
  files, each mapped to the folder's path joined with the name, in the order of the
  listing; subdirectories are left out and never entered. When the folder does not
  exist the index is empty and nothing is raised.
\<close>

theorem image_index_of_one_folder:
  "extractall zip_file extract_path = Inr w \<longrightarrow>
     (\<not> os_exists w (path_join extract_path ''Dalle-generations'')
        \<longrightarrow> get_image_paths_from_zip extractall zip_file extract_path
              = Inr (w, [], [ImagesMapped []]))
     \<and> (os_exists w (path_join extract_path ''Dalle-generations'') \<and>
        os_listdir w (path_join extract_path ''Dalle-generations'') = Inr files \<and>
        distinct files
        \<longrightarrow> get_image_paths_from_zip extractall zip_file extract_path
              = Inr (w,
                     map (\<lambda>f. (f, path_join (path_join extract_path ''Dalle-generations'') f))
                       (filter (\<lambda>f. os_isfile w
                                  (path_join (path_join extract_path ''Dalle-generations'') f))
                          files),
                     [ImagesMapped
                        (filter (\<lambda>f. os_isfile w
                                   (path_join (path_join extract_path ''Dalle-generations'') f))
                           files)]))"
  by (simp add: get_image_paths_from_zip_def map_images_to_identifiers_def Let_def
      scan_files_distinct comp_def)

theorem image_index_witness:
  "get_image_paths_from_zip image_extractall ''in.zip'' ''/tmp/in''
     = Inr (image_world,
            [(''abc123.png'', ''/tmp/in/Dalle-generations/abc123.png''),
             (''broken.png'', ''/tmp/in/Dalle-generations/broken.png'')],
            [ImagesMapped [''abc123.png'', ''broken.png'']])
   \<and> get_image_paths_from_zip (plain_extractall PNone) ''in.zip'' ''/tmp/in''
     = Inr (plain_world PNone, [], [ImagesMapped []])"
proof -
  have dir: "path_join ''/tmp/in'' ''Dalle-generations'' = ''/tmp/in/Dalle-generations''"
    by (simp add: path_join_def)
  have a: "get_image_paths_from_zip image_extractall ''in.zip'' ''/tmp/in''
     = Inr (image_world,
            [(''abc123.png'', ''/tmp/in/Dalle-generations/abc123.png''),
             (''broken.png'', ''/tmp/in/Dalle-generations/broken.png'')],
            [ImagesMapped [''abc123.png'', ''broken.png'']])"
    using image_index_of_one_folder
      [of image_extractall "''in.zip''" "''/tmp/in''" image_world
          "[''abc123.png'', ''sub'', ''broken.png'']"]
    by (simp add: dir image_extractall_def) (simp add: image_world_def path_join_def)
  have b: "get_image_paths_from_zip (plain_extractall PNone) ''in.zip'' ''/tmp/in''
     = Inr (plain_world PNone, [], [ImagesMapped []])"
    using image_index_of_one_folder
      [of "plain_extractall PNone" "''in.zip''" "''/tmp/in''" "plain_world PNone"]
    by (simp add: dir plain_extractall_def) (simp add: plain_world_def)
  from a b show ?thesis by simp
qed

section \<open>The walk over nodes and parts\<close>

text \<open>
  Claim C5. Three kinds of input add nothing to the document and to the diagnostics, and
  raise nothing: a node without message (the key is missing, or its value is false as
  \<^verbatim>\<open>None\<close> is), a text part made of whitespace only, and a part that is neither a string
  nor a dict whose \<^verbatim>\<open>content_type\<close> is \<^verbatim>\<open>image_asset_pointer\<close>. Wherever such a node or part
  stands in the sequence, the walk gives what it gives without it, and a conversation
  with such a node in its mapping gives the document it gives without the node.
\<close>

theorem walker_omits_silently:
  "((map_of node ''message'' = None
       \<or> (\<exists>m. map_of node ''message'' = Some m \<and> \<not> truthy m))
      \<longrightarrow> process_node w ip st (PDict node) = Inr st
        \<and> process_nodes w ip st0 (nodes1 @ PDict node # nodes2)
            = process_nodes w ip st0 (nodes1 @ nodes2)
        \<and> create_conversation_doc w
              (PDict [(''title'', title),
                      (''mapping'', PDict (mapping1 @ (node_id, PDict node) # mapping2))])
              ip output_dir
            = create_conversation_doc w
                (PDict [(''title'', title), (''mapping'', PDict (mapping1 @ mapping2))])
                ip output_dir)
   \<and> ((\<forall>c\<in>set s. isspace c)
      \<longrightarrow> process_part w ip author st (PStr s) = Inr st
        \<and> process_parts w ip author st0 (parts1 @ PStr s # parts2)
            = process_parts w ip author st0 (parts1 @ parts2))
   \<and> ((\<forall>t. part \<noteq> PStr t) \<and>
       (\<forall>kvs. part = PDict kvs
          \<longrightarrow> map_of kvs ''content_type'' \<noteq> Some (PStr ''image_asset_pointer''))
      \<longrightarrow> process_part w ip author st part = Inr st
        \<and> process_parts w ip author st0 (parts1 @ part # parts2)
            = process_parts w ip author st0 (parts1 @ parts2))"
proof (intro conjI impI)
  assume a: "map_of node ''message'' = None
    \<or> (\<exists>m. map_of node ''message'' = Some m \<and> \<not> truthy m)"
  show "process_node w ip st (PDict node) = Inr st"
    using a by (rule process_node_skip)
  show "process_nodes w ip st0 (nodes1 @ PDict node # nodes2)
      = process_nodes w ip st0 (nodes1 @ nodes2)"
    using a by (rule process_nodes_skip_node)
  show "create_conversation_doc w
              (PDict [(''title'', title),
                      (''mapping'', PDict (mapping1 @ (node_id, PDict node) # mapping2))])
              ip output_dir
            = create_conversation_doc w
                (PDict [(''title'', title), (''mapping'', PDict (mapping1 @ mapping2))])
                ip output_dir"
    by (simp add: create_conversation_doc_def process_nodes_skip_node [OF a]
        cong: sum.case_cong)
next
  assume "\<forall>c\<in>set s. isspace c"
  then have e: "strip s = []" by (simp add: strip_Nil_iff)
  show "process_part w ip author st (PStr s) = Inr st"
    using e by (rule process_part_skip_text)
  show "process_parts w ip author st0 (parts1 @ PStr s # parts2)
      = process_parts w ip author st0 (parts1 @ parts2)"
    by (simp add: process_parts_append process_part_skip_text [OF e] split: sum.splits)
next
  assume "(\<forall>t. part \<noteq> PStr t) \<and>
       (\<forall>kvs. part = PDict kvs
          \<longrightarrow> map_of kvs ''content_type'' \<noteq> Some (PStr ''image_asset_pointer''))"
  then have a1: "\<forall>t. part \<noteq> PStr t"
    and a2: "\<forall>kvs. part = PDict kvs
          \<longrightarrow> map_of kvs ''content_type'' \<noteq> Some (PStr ''image_asset_pointer'')"
    by blast+
  show "process_part w ip author st part = Inr st"
    using a1 a2 by (rule process_part_skip_other)
  show "process_parts w ip author st0 (parts1 @ part # parts2)
      = process_parts w ip author st0 (parts1 @ parts2)"
    by (simp add: process_parts_append process_part_skip_other [OF a1 a2] split: sum.splits)
qed

theorem walker_omits_witness:
  "process_node image_world [] ([EmptyPara], []) (PDict [(''id'', PStr ''root'')])
     = Inr ([EmptyPara], [])
   \<and> process_nodes image_world [] ([], [])
        [message_node ''user'' [PStr ''ok''], PDict [(''id'', PStr ''root'')]]
     = process_nodes image_world [] ([], []) [message_node ''user'' [PStr ''ok'']]
   \<and> create_conversation_doc image_world
         (PDict [(''title'', PStr ''Demo''),
                 (''mapping'', PDict [(''root'', PDict [(''id'', PStr ''root'')]),
                                      (''n1'', message_node ''user'' [PStr ''ok''])])])
         [] ''/tmp/out''
     = create_conversation_doc image_world
         (PDict [(''title'', PStr ''Demo''),
                 (''mapping'', PDict [(''n1'', message_node ''user'' [PStr ''ok''])])])
         [] ''/tmp/out''
   \<and> process_part image_world [] (PStr ''user'') ([EmptyPara], []) (PStr ''  '')
     = Inr ([EmptyPara], [])
   \<and> process_parts image_world [] (PStr ''user'') ([], []) [PStr ''  '', PStr ''ok'']
     = process_parts image_world [] (PStr ''user'') ([], []) [PStr ''ok'']
   \<and> process_part image_world [] (PStr ''user'') ([EmptyPara], []) (PInt 3)
     = Inr ([EmptyPara], [])
   \<and> process_parts image_world [] (PStr ''user'') ([], []) [PStr ''ok'', PInt 3]
     = process_parts image_world [] (PStr ''user'') ([], []) [PStr ''ok'']"
proof -
  have hn: "map_of [(''id'', PStr ''root'')] ''message'' = None
      \<or> (\<exists>m. map_of [(''id'', PStr ''root'')] ''message'' = Some m \<and> \<not> truthy m)"
    by simp
  have ws: "\<forall>c\<in>set ''  ''. isspace c"
    by (simp add: isspace_def whitespace_chars_def)
  have hp: "(\<forall>t. PInt 3 \<noteq> PStr t) \<and>
       (\<forall>kvs. PInt 3 = PDict kvs
          \<longrightarrow> map_of kvs ''content_type'' \<noteq> Some (PStr ''image_asset_pointer''))"
    by simp
  note t = walker_omits_silently
    [where node = "[(''id'', PStr ''root'')]" and s = "''  ''" and part = "PInt 3"
       and w = image_world and ip = "[]" and st = "([EmptyPara], [])"
       and ?st0.0 = "([], [])" and author = "PStr ''user''"]
  from t [where ?nodes1.0 = "[message_node ''user'' [PStr ''ok'']]" and ?nodes2.0 = "[]"
            and ?parts1.0 = "[]" and ?parts2.0 = "[PStr ''ok'']"
            and title = "PStr ''Demo''" and ?mapping1.0 = "[]" and node_id = "''root''"
            and ?mapping2.0 = "[(''n1'', message_node ''user'' [PStr ''ok''])]"
            and output_dir = "''/tmp/out''"] hn ws hp
  have a: "process_node image_world [] ([EmptyPara], []) (PDict [(''id'', PStr ''root'')])
       = Inr ([EmptyPara], [])
     \<and> process_nodes image_world [] ([], [])
          ([message_node ''user'' [PStr ''ok'']] @ PDict [(''id'', PStr ''root'')] # [])
       = process_nodes image_world [] ([], []) ([message_node ''user'' [PStr ''ok'']] @ [])
     \<and> create_conversation_doc image_world
           (PDict [(''title'', PStr ''Demo''),
                   (''mapping'', PDict ([] @ (''root'', PDict [(''id'', PStr ''root'')])
                                          # [(''n1'', message_node ''user'' [PStr ''ok''])]))])
           [] ''/tmp/out''
       = create_conversation_doc image_world
           (PDict [(''title'', PStr ''Demo''),
                   (''mapping'', PDict ([] @ [(''n1'', message_node ''user'' [PStr ''ok''])]))])
           [] ''/tmp/out''
     \<and> process_part image_world [] (PStr ''user'') ([EmptyPara], []) (PStr ''  '')
       = Inr ([EmptyPara], [])
     \<and> process_parts image_world [] (PStr ''user'') ([], []) ([] @ PStr ''  '' # [PStr ''ok''])
       = process_parts image_world [] (PStr ''user'') ([], []) ([] @ [PStr ''ok''])
     \<and> process_part image_world [] (PStr ''user'') ([EmptyPara], []) (PInt 3)
       = Inr ([EmptyPara], [])"
    by blast
  from t [where ?parts1.0 = "[PStr ''ok'']" and ?parts2.0 = "[]"] hp
  have b: "process_parts image_world [] (PStr ''user'') ([], []) ([PStr ''ok''] @ PInt 3 # [])
       = process_parts image_world [] (PStr ''user'') ([], []) ([PStr ''ok''] @ [])"
    by blast
  from a b show ?thesis by (simp only: append.simps)
qed




section \<open>Images that are missing or cannot be read\<close>

text \<open>
  Claim C6. An image part whose identifier (the last segment of its asset pointer) is the
  prefix of no file name of the index adds nothing to the document, neither picture nor
  placeholder; it prints the diagnostic "Image manquante pour" with the identifier and
  raises nothing, and the walk goes on with the parts that follow. In the scenario of the
  spec, a conversation that refers to the asset "xyz" with an empty index, the run ends
  with the result archive, whose document holds no picture.
\<close>

theorem missing_image_is_skipped:
  "(map_of part ''content_type'' = Some (PStr ''image_asset_pointer'') \<and>
    map_of part ''asset_pointer'' = Some (PStr pointer) \<and>
    (\<forall>e\<in>set images_path. \<not> prefix (last (split_on (CHR ''/'') pointer)) (fst e))
      \<longrightarrow> process_part w images_path author (doc, diags) (PDict part)
            = Inr (doc, diags @ [ImageMissing (last (split_on (CHR ''/'') pointer))])
        \<and> process_parts w images_path author (doc, diags) (PDict part # rest)
            = process_parts w images_path author
                (doc, diags @ [ImageMissing (last (split_on (CHR ''/'') pointer))]) rest)
   \<and> generate_conversations_zip (plain_extractall (PList [picture_conversation]))
        ''in.zip'' ''/tmp/in'' ''/tmp/out''
      = Inr \<lparr>zip_output_path = ''/tmp/out/conversations_output.zip'',
             zip_entries =
               [(''My_pictures.docx'',
                 [Para \<lparr>ptext = ''My pictures'', pstyle = Some ''Title'', pbold = True,
                         punderline = False, pcolor = None, palign = Some CENTER\<rparr>,
                  EmptyPara,
                  Para \<lparr>ptext = ''Utilisateur : Draw a cat'', pstyle = None, pbold = True,
                         punderline = True, pcolor = Some (0, 102, 204), palign = None\<rparr>,
                  Para \<lparr>ptext = ''Assistant : Done.'', pstyle = None, pbold = False,
                         punderline = False, pcolor = None, palign = None\<rparr>])],
             printed = [ImagesMapped [], ImageMissing ''xyz'']\<rparr>"
proof (intro conjI impI)
  assume h: "map_of part ''content_type'' = Some (PStr ''image_asset_pointer'') \<and>
    map_of part ''asset_pointer'' = Some (PStr pointer) \<and>
    (\<forall>e\<in>set images_path. \<not> prefix (last (split_on (CHR ''/'') pointer)) (fst e))"
  then have "find_image_for_asset (last (split_on (CHR ''/'') pointer)) images_path = None"
    by (induction images_path) auto
  with h show step: "process_part w images_path author (doc, diags) (PDict part)
            = Inr (doc, diags @ [ImageMissing (last (split_on (CHR ''/'') pointer))])"
    by (simp add: Let_def)
  then show "process_parts w images_path author (doc, diags) (PDict part # rest)
            = process_parts w images_path author
                (doc, diags @ [ImageMissing (last (split_on (CHR ''/'') pointer))]) rest"
    by simp
next
  show "generate_conversations_zip (plain_extractall (PList [picture_conversation]))
        ''in.zip'' ''/tmp/in'' ''/tmp/out''
      = Inr \<lparr>zip_output_path = ''/tmp/out/conversations_output.zip'',
             zip_entries =
               [(''My_pictures.docx'',
                 [Para \<lparr>ptext = ''My pictures'', pstyle = Some ''Title'', pbold = True,
                         punderline = False, pcolor = None, palign = Some CENTER\<rparr>,
                  EmptyPara,
                  Para \<lparr>ptext = ''Utilisateur : Draw a cat'', pstyle = None, pbold = True,
                         punderline = True, pcolor = Some (0, 102, 204), palign = None\<rparr>,
                  Para \<lparr>ptext = ''Assistant : Done.'', pstyle = None, pbold = False,
                         punderline = False, pcolor = None, palign = None\<rparr>])],
             printed = [ImagesMapped [], ImageMissing ''xyz'']\<rparr>"
    by code_simp
qed

theorem missing_image_witness:
  "process_part image_world [(''abc123.png'', ''/tmp/in/Dalle-generations/abc123.png'')]
     (PStr ''tool'') ([EmptyPara], []) (image_part ''file-service://xyz'')
     = Inr ([EmptyPara], [ImageMissing ''xyz''])
   \<and> process_parts image_world [(''abc123.png'', ''/tmp/in/Dalle-generations/abc123.png'')]
     (PStr ''tool'') ([EmptyPara], []) [image_part ''file-service://xyz'', PStr ''ok'']
     = Inr ([EmptyPara,
             Para \<lparr>ptext = ''Assistant : ok'', pstyle = None, pbold = False,
                    punderline = False, pcolor = None, palign = None\<rparr>],
            [ImageMissing ''xyz''])"
proof -
  have seg: "last (split_on (CHR ''/'') ''file-service://xyz'') = ''xyz''"
    by (simp add: split_on_def)
  have h: "map_of [(''content_type'', PStr ''image_asset_pointer''),
                   (''asset_pointer'', PStr ''file-service://xyz'')] ''content_type''
             = Some (PStr ''image_asset_pointer'')
     \<and> map_of [(''content_type'', PStr ''image_asset_pointer''),
                (''asset_pointer'', PStr ''file-service://xyz'')] ''asset_pointer''
             = Some (PStr ''file-service://xyz'')
     \<and> (\<forall>e\<in>set [(''abc123.png'', ''/tmp/in/Dalle-generations/abc123.png'')].
           \<not> prefix (last (split_on (CHR ''/'') ''file-service://xyz'')) (fst e))"
    by (simp add: seg)
  from missing_image_is_skipped
    [where part = "[(''content_type'', PStr ''image_asset_pointer''),
                    (''asset_pointer'', PStr ''file-service://xyz'')]"
       and pointer = "''file-service://xyz''"
       and images_path = "[(''abc123.png'', ''/tmp/in/Dalle-generations/abc123.png'')]"
       and w = image_world and author = "PStr ''tool''" and doc = "[EmptyPara]"
       and diags = "[]" and rest = "[PStr ''ok'']"] h
  have "process_part image_world [(''abc123.png'', ''/tmp/in/Dalle-generations/abc123.png'')]
          (PStr ''tool'') ([EmptyPara], [])
          (PDict [(''content_type'', PStr ''image_asset_pointer''),
                  (''asset_pointer'', PStr ''file-service://xyz'')])
        = Inr ([EmptyPara],
               [] @ [ImageMissing (last (split_on (CHR ''/'') ''file-service://xyz''))])
     \<and> process_parts image_world
          [(''abc123.png'', ''/tmp/in/Dalle-generations/abc123.png'')]
          (PStr ''tool'') ([EmptyPara], [])
          (PDict [(''content_type'', PStr ''image_asset_pointer''),
                  (''asset_pointer'', PStr ''file-service://xyz'')] # [PStr ''ok''])
        = process_parts image_world
            [(''abc123.png'', ''/tmp/in/Dalle-generations/abc123.png'')]
            (PStr ''tool'')
            ([EmptyPara],
             [] @ [ImageMissing (last (split_on (CHR ''/'') ''file-service://xyz''))])
            [PStr ''ok'']"
    by blast
  then show ?thesis
    by (simp add: seg image_part_def strip_examples paragraph_or_raise_def
        add_styled_paragraph_def xml_compatible_def xml_rejected_chars_def)
qed




section \<open>The round trip of one conversation\<close>




section \<open>A conversation that cannot be rendered\<close>

lemma render_all_stops_at_failure:
  assumes "\<forall>c\<in>set before. \<exists>out. create_conversation_doc w c ip dir = Inr out"
    and "create_conversation_doc w conversation ip dir = Inl e"
  shows "render_all w ip dir st (before @ conversation # rest) = Inl e"
  using assms
proof (induction before arbitrary: st)
  case Nil
  then show ?case by (cases st) simp
next
  case (Cons c before)
  from Cons.prems obtain p doc dg where "create_conversation_doc w c ip dir = Inr (p, doc, dg)"
    by (metis list.set_intros(1) prod_cases3)
  moreover obtain fs saved d where "st = (fs, saved, d)"
    by (cases st) auto
  ultimately show ?case
    using Cons.IH Cons.prems by simp
qed

text \<open>
  Claim C1, as the spec states it, lets the run skip a conversation that fails and go
  on. The loop of \<^verbatim>\<open>generate_conversations_zip\<close> has no handler: with the conversation
  "Demo", which renders, followed by one whose message has no author, the run ends in
  the KeyError and returns no archive.
\<close>

theorem batch_aborts_counterexample:
  "create_conversation_doc (plain_world (PList [demo_conversation, broken_conversation]))
     demo_conversation [] ''/tmp/out''
   = Inr (''/tmp/out/Demo.docx'', demo_document, [])
   \<and> generate_conversations_zip
       (plain_extractall (PList [demo_conversation, broken_conversation]))
       ''in.zip'' ''/tmp/in'' ''/tmp/out''
   = Inl (KeyError ''author'')"
  by code_simp

text \<open>
  Claim C1, amended. A failure to build or to save one conversation's document is fatal
  for the whole run: when the conversations before it render, the exception of the
  failing one leaves \<^verbatim>\<open>generate_conversations_zip\<close> as it is, whatever conversations
  follow, and no archive is returned.
\<close>

theorem failed_conversation_aborts_run:
  "get_image_paths_from_zip extractall zip_name extract_path = Inr (w, image_paths, diags0) \<and>
   load_json_with_fallback w (path_join extract_path ''conversations.json'') = Inr data \<and>
   iterate data = Inr (before @ conversation # rest) \<and>
   (\<forall>c\<in>set before. \<exists>out. create_conversation_doc w c image_paths docx_temp_dir = Inr out) \<and>
   create_conversation_doc w conversation image_paths docx_temp_dir = Inl e
     \<longrightarrow> generate_conversations_zip extractall zip_name extract_path docx_temp_dir = Inl e"
  by (simp add: generate_conversations_zip_def render_all_stops_at_failure)

theorem failed_conversation_witness:
  "generate_conversations_zip
     (plain_extractall (PList [demo_conversation, broken_conversation, picture_conversation]))
     ''in.zip'' ''/tmp/in'' ''/tmp/out''
   = Inl (KeyError ''author'')"
proof -
  let ?data = "PList [demo_conversation, broken_conversation, picture_conversation]"
  have h: "get_image_paths_from_zip (plain_extractall ?data) ''in.zip'' ''/tmp/in''
             = Inr (plain_world ?data, [], [ImagesMapped []]) \<and>
     load_json_with_fallback (plain_world ?data) (path_join ''/tmp/in'' ''conversations.json'')
             = Inr ?data \<and>
     iterate ?data = Inr ([demo_conversation] @ broken_conversation # [picture_conversation]) \<and>
     (\<forall>c\<in>set [demo_conversation].
         \<exists>out. create_conversation_doc (plain_world ?data) c [] ''/tmp/out'' = Inr out) \<and>
     create_conversation_doc (plain_world ?data) broken_conversation [] ''/tmp/out''
             = Inl (KeyError ''author'')"
  proof (intro conjI)
    show "get_image_paths_from_zip (plain_extractall ?data) ''in.zip'' ''/tmp/in''
             = Inr (plain_world ?data, [], [ImagesMapped []])"
      by (simp add: get_image_paths_from_zip_def plain_extractall_def
          map_images_to_identifiers_def path_join_def plain_world_def)
    show "load_json_with_fallback (plain_world ?data)
            (path_join ''/tmp/in'' ''conversations.json'') = Inr ?data"
      by (simp add: load_json_with_fallback_def encodings_def read_json_def path_join_def
          plain_world_def)
    show "iterate ?data
            = Inr ([demo_conversation] @ broken_conversation # [picture_conversation])"
      by simp
    have "create_conversation_doc (plain_world ?data) demo_conversation [] ''/tmp/out''
            = Inr (''/tmp/out/Demo.docx'', demo_document, [])"
      by code_simp
    then show "\<forall>c\<in>set [demo_conversation].
         \<exists>out. create_conversation_doc (plain_world ?data) c [] ''/tmp/out'' = Inr out"
      by simp
    show "create_conversation_doc (plain_world ?data) broken_conversation [] ''/tmp/out''
             = Inl (KeyError ''author'')"
      by code_simp
  qed
  from failed_conversation_aborts_run
    [where extractall = "plain_extractall ?data" and zip_name = "''in.zip''"
       and extract_path = "''/tmp/in''" and w = "plain_world ?data" and image_paths = "[]"
       and ?diags0.0 = "[ImagesMapped []]" and data = ?data
       and before = "[demo_conversation]" and conversation = broken_conversation
       and rest = "[picture_conversation]" and docx_temp_dir = "''/tmp/out''"
       and e = "KeyError ''author''"] h
  show ?thesis by blast
qed

section \<open>Names and entries of the result archive\<close>








end
